theory Spec2Isabelle
  imports Complex_Main "HOL-Library.Word" "HOL-Library.Signed_Division"
begin

unbundle bit_operations_syntax

section \<open>Shared data: C library structures and MAX6951 constants\<close>

text \<open>
  Both programs (SPI_Clock.c, the civil clock, and SPI_Sidereal.c, the sidereal clock)
  drive a MAX6951 over SPI. An \<open>unsigned char\<close> is an \<open>8 word\<close>, an
  \<open>unsigned int\<close> a \<open>32 word\<close>. The signed quantities \<open>int\<close>, \<open>long\<close> and
  \<open>time_t\<close> are kept as unbounded integers: their ranges are not modelled (signed
  overflow is undefined in C, and a clock reading is far from the ends of \<open>time_t\<close>).
  C's \<open>/\<close> and \<open>%\<close> on signed integers truncate towards zero: \<open>sdiv\<close> and \<open>smod\<close>.
\<close>

type_synonym byte = "8 word"

record timespec =
  tv_sec :: int
  tv_nsec :: int

record tm =
  tm_hour :: int
  tm_min :: int
  tm_sec :: int

definition BV :: "nat \<Rightarrow> byte" where
  "BV n = push_bit n 1"

definition MAX_REG_DEC_MODE :: byte where "MAX_REG_DEC_MODE = 0x01"
definition MAX_REG_INTENSITY :: byte where "MAX_REG_INTENSITY = 0x02"
definition MAX_REG_SCAN_LIMIT :: byte where "MAX_REG_SCAN_LIMIT = 0x03"
definition MAX_REG_CONFIG :: byte where "MAX_REG_CONFIG = 0x04"
definition MAX_REG_TEST :: byte where "MAX_REG_TEST = 0x07"
definition MAX_REG_MASK_P0 :: byte where "MAX_REG_MASK_P0 = 0x20"
definition MAX_REG_MASK_P1 :: byte where "MAX_REG_MASK_P1 = 0x40"
definition MAX_REG_MASK_BOTH :: byte where
  "MAX_REG_MASK_BOTH = MAX_REG_MASK_P0 OR MAX_REG_MASK_P1"

definition MASK_DP :: byte where "MASK_DP = BV 7"
definition MASK_A :: byte where "MASK_A = BV 6"
definition MASK_B :: byte where "MASK_B = BV 5"
definition MASK_C :: byte where "MASK_C = BV 4"
definition MASK_D :: byte where "MASK_D = BV 3"
definition MASK_E :: byte where "MASK_E = BV 2"
definition MASK_F :: byte where "MASK_F = BV 1"
definition MASK_G :: byte where "MASK_G = BV 0"

definition MASK_COLON_HM :: byte where "MASK_COLON_HM = MASK_E OR MASK_F"
definition MASK_COLON_MS :: byte where "MASK_COLON_MS = MASK_B OR MASK_C"
definition MASK_AM :: byte where "MASK_AM = MASK_A"
definition MASK_PM :: byte where "MASK_PM = MASK_D"

section \<open>SPI_Clock.c: the civil clock\<close>

text \<open>
  The option flags of \<open>main\<close> are \<open>unsigned char\<close> variables tested for being nonzero.
  The flag \<open>colon\<close> of this program is the field \<open>clock_colon\<close>; the name
  \<open>colon\<close> is kept for the global variable of SPI_Sidereal.c.
\<close>

record clock_config =
  ampm :: byte
  clock_colon :: byte
  tenth :: byte

text \<open>
  Lines 228-236 of \<open>main\<close>: the hour of \<open>localtime_r\<close> is stored in an
  \<open>unsigned char\<close> and turned into a 12 hour value with a PM flag when \<open>ampm\<close> is set.
  The result is the pair \<open>(h, pm)\<close>.
\<close>

definition clock_hour :: "byte \<Rightarrow> int \<Rightarrow> byte \<times> byte" where
  "clock_hour ampm_flag hour =
     (let h = (word_of_int hour :: byte); pm = (0 :: byte) in
      if ampm_flag \<noteq> 0 then
        (if h = 0 then (12, pm)
         else if h = 12 then (h, 1)
         else if h > 12 then (h - 12, 1)
         else (h, pm))
      else (h, pm))"

text \<open>Lines 241-247: the decode mode byte, "All decode except 7".\<close>

definition clock_decode_mask :: "clock_config \<Rightarrow> byte \<Rightarrow> byte" where
  "clock_decode_mask cfg h =
     (let val = NOT (BV 7);
          val = (if ampm cfg \<noteq> 0 \<and> h < 10 then val AND NOT (BV 0) else val);
          val = (if tenth cfg = 0 then val AND NOT (BV 6) else val)
      in val)"

text \<open>Lines 257-263: the byte of digit 7, the colons and the AM and PM lights.\<close>

definition clock_misc_digit :: "clock_config \<Rightarrow> byte \<Rightarrow> byte" where
  "clock_misc_digit cfg pm =
     (let val = (0 :: byte);
          val = (if clock_colon cfg \<noteq> 0 then val OR (MASK_COLON_HM OR MASK_COLON_MS) else val);
          val = (if ampm cfg \<noteq> 0 then val OR (if pm \<noteq> 0 then MASK_PM else MASK_AM) else val)
      in val)"

text \<open>
  Lines 249-264: the nine register writes of one display update, in order, as
  (register, data) pairs. \<open>tenth_val\<close> is the \<open>unsigned int\<close> computed at line 238.
\<close>

definition clock_frame :: "clock_config \<Rightarrow> tm \<Rightarrow> 32 word \<Rightarrow> (byte \<times> byte) list" where
  "clock_frame cfg lt tenth_val =
     (let (h, pm) = clock_hour (ampm cfg) (tm_hour lt) in
      [(MAX_REG_DEC_MODE, clock_decode_mask cfg h),
       (MAX_REG_MASK_BOTH + 0, h div 10),
       (MAX_REG_MASK_BOTH + 1, h mod 10),
       (MAX_REG_MASK_BOTH + 2, word_of_int (tm_min lt sdiv 10)),
       (MAX_REG_MASK_BOTH + 3, word_of_int (tm_min lt smod 10)),
       (MAX_REG_MASK_BOTH + 4, word_of_int (tm_sec lt sdiv 10)),
       (MAX_REG_MASK_BOTH + 5,
          word_of_int (tm_sec lt smod 10) OR (if tenth cfg \<noteq> 0 then MASK_DP else 0)),
       (MAX_REG_MASK_BOTH + 6, ucast (if tenth cfg \<noteq> 0 then tenth_val else 0)),
       (MAX_REG_MASK_BOTH + 7, clock_misc_digit cfg pm)])"

text \<open>
  The SPI device. \<open>sent\<close> lists the (register, data) pairs the device has received, in
  order; \<open>calls\<close> counts the \<open>SPI_IOC_MESSAGE\<close> ioctls made so far. Whether the
  \<open>k\<close>-th ioctl succeeds is decided by the environment, a function \<open>ok\<close> from the call
  index to success. A failed ioctl transmits nothing. \<open>perror\<close> only prints to stderr,
  which is not recorded.
\<close>

record spi_state =
  sent :: "(byte \<times> byte) list"
  calls :: nat

text \<open>
  \<open>write_reg\<close> of SPI_Clock.c (lines 109-121): on failure it calls \<open>perror\<close> and
  returns to its caller.
\<close>

definition clock_write_reg ::
  "(nat \<Rightarrow> bool) \<Rightarrow> byte \<Rightarrow> byte \<Rightarrow> 'a spi_state_scheme \<Rightarrow> 'a spi_state_scheme" where
  "clock_write_reg ok reg data st =
     (if ok (calls st)
      then st\<lparr>sent := sent st @ [(reg, data)], calls := Suc (calls st)\<rparr>
      else st\<lparr>calls := Suc (calls st)\<rparr>)"

fun clock_write_regs ::
  "(nat \<Rightarrow> bool) \<Rightarrow> (byte \<times> byte) list \<Rightarrow> 'a spi_state_scheme \<Rightarrow> 'a spi_state_scheme" where
  "clock_write_regs ok [] st = st"
| "clock_write_regs ok ((reg, data) # ws) st =
     clock_write_regs ok ws (clock_write_reg ok reg data st)"

text \<open>
  One iteration of the \<open>while(1)\<close> loop of \<open>main\<close> (lines 219-270). The state that
  survives an iteration is the SPI device and the static \<open>last_tenth\<close>. The environment of
  one iteration: the result of \<open>clock_gettime\<close> (\<open>None\<close> when it fails), the content of
  the uninitialised local \<open>now\<close> (what is read when \<open>clock_gettime\<close> failed, since the
  code goes on after \<open>perror\<close>), the time zone conversion \<open>localtime_r\<close> and the
  ioctl results. \<open>nanosleep\<close> changes nothing of the state. The body has no \<open>exit\<close>
  and no \<open>break\<close>: it always returns the state the next iteration runs on.
\<close>

record clock_state = spi_state +
  last_tenth :: "32 word"

record clock_env =
  gettime :: "timespec option"
  stack_now :: timespec
  localtime_r :: "int \<Rightarrow> tm"
  ioctl_ok :: "nat \<Rightarrow> bool"

definition clock_main_loop_body :: "clock_config \<Rightarrow> clock_env \<Rightarrow> clock_state \<Rightarrow> clock_state" where
  "clock_main_loop_body cfg env st =
     (let now = (case gettime env of Some t \<Rightarrow> t | None \<Rightarrow> stack_now env);
          lt = localtime_r env (tv_sec now);
          tenth_val = (word_of_int (tv_nsec now sdiv (100 * 1000 * 1000)) :: 32 word)
      in if tenth_val \<noteq> last_tenth st
         then clock_write_regs (ioctl_ok env) (clock_frame cfg lt tenth_val)
                (st\<lparr>last_tenth := tenth_val\<rparr>)
         else st)"

section \<open>SPI_Sidereal.c: the sidereal clock\<close>

definition FUDGE :: int where "FUDGE = 250 * 1000"
definition SECOND_IN_NANOS :: int where "SECOND_IN_NANOS = 1000 * 1000 * 1000"
definition TENTH_IN_NANOS :: int where "TENTH_IN_NANOS = SECOND_IN_NANOS sdiv 10"
definition HUNDREDTH_IN_NANOS :: int where "HUNDREDTH_IN_NANOS = SECOND_IN_NANOS sdiv 100"
definition EPOCH_CTIME :: int where "EPOCH_CTIME = 946684800"
definition EPOCH_JDATE :: real where "EPOCH_JDATE = 2451544.5"

definition DIGIT_10_HR :: byte where "DIGIT_10_HR = 0"
definition DIGIT_1_HR :: byte where "DIGIT_1_HR = 1"
definition DIGIT_10_MIN :: byte where "DIGIT_10_MIN = 2"
definition DIGIT_1_MIN :: byte where "DIGIT_1_MIN = 3"
definition DIGIT_10_SEC :: byte where "DIGIT_10_SEC = 4"
definition DIGIT_1_SEC :: byte where "DIGIT_1_SEC = 5"
definition DIGIT_100_MSEC :: nat where "DIGIT_100_MSEC = 6"
definition DIGIT_MISC :: nat where "DIGIT_MISC = 7"

text \<open>The globals set by the options of \<open>main\<close> and read by \<open>update_display\<close>.\<close>

record sidereal_config =
  colon :: byte
  colon_blink :: byte
  tenth_enable :: byte
  longitude :: real

subsection \<open>The sidereal time of \<open>update_display\<close>\<close>

text \<open>
  \<open>update_display\<close> computes in \<open>long double\<close> (and \<open>longitude\<close> is a \<open>float\<close>).
  The model computes in exact real arithmetic with the decimal constants as written: it
  is the computation the floating point code approximates, and says nothing about
  rounding errors. A conversion to \<open>int\<close> or \<open>long\<close> truncates towards zero.
\<close>

definition trunc_int :: "real \<Rightarrow> int" where
  "trunc_int x = (if 0 \<le> x then \<lfloor>x\<rfloor> else \<lceil>x\<rceil>)"

text \<open>Line 221: the clock reading as a fraction of seconds.\<close>

definition now_of :: "timespec \<Rightarrow> real" where
  "now_of now_spec = real_of_int (tv_sec now_spec)
       + real_of_int (tv_nsec now_spec) / real_of_int SECOND_IN_NANOS"

text \<open>Lines 223-229: the locals \<open>JD\<close>, \<open>JD0\<close>, \<open>D0\<close>, \<open>H\<close> and \<open>T\<close>.\<close>

definition JD_of :: "real \<Rightarrow> real" where
  "JD_of now = ((now - real_of_int EPOCH_CTIME) / 86400) + EPOCH_JDATE"

definition JD0_of :: "real \<Rightarrow> real" where
  "JD0_of now =
     (real_of_int (trunc_int (now / 86400) * 86400 - EPOCH_CTIME) / 86400) + EPOCH_JDATE"

definition D0_of :: "real \<Rightarrow> real" where
  "D0_of now = JD0_of now - (EPOCH_JDATE + 0.5)"

definition H_of :: "real \<Rightarrow> real" where
  "H_of now = (JD_of now - JD0_of now) * 24"

definition T_of :: "real \<Rightarrow> real" where
  "T_of now = (JD_of now - (EPOCH_JDATE + 0.5)) / 36525"

text \<open>Line 231: Greenwich mean sidereal time, in hours.\<close>

definition gmst_greenwich :: "real \<Rightarrow> real" where
  "gmst_greenwich now =
     (6.697374558 + 0.06570982441908 * D0_of now + 1.00273790935 * H_of now)
       + 0.000026 * T_of now * T_of now"

text \<open>Line 233: \<open>while (gmst > 24.0) gmst -= 24.0;\<close>\<close>

function gmst_wrap :: "real \<Rightarrow> real" where
  "gmst_wrap gmst = (if gmst > 24 then gmst_wrap (gmst - 24) else gmst)"
  by pat_completeness auto
termination
proof (relation "measure (\<lambda>g. nat \<lceil>g\<rceil>)")
  show "wf (measure (\<lambda>g. nat \<lceil>g\<rceil>))" by simp
next
  fix gmst :: real
  assume "24 < gmst"
  then have "24 < \<lceil>gmst\<rceil>" by linarith
  moreover have "\<lceil>gmst - 24\<rceil> = \<lceil>gmst\<rceil> - 24"
    using ceiling_diff_numeral [of gmst "Num.Bit0 (Num.Bit0 (Num.Bit0 (Num.Bit1 Num.One)))"] by simp
  ultimately show "(gmst - 24, gmst) \<in> measure (\<lambda>g. nat \<lceil>g\<rceil>)" by simp
qed

declare gmst_wrap.simps [simp del]

text \<open>Lines 231-233: the value of \<open>gmst\<close> after the loop, the local sidereal hour value.\<close>

definition update_display_gmst :: "sidereal_config \<Rightarrow> timespec \<Rightarrow> real" where
  "update_display_gmst cfg now_spec =
     gmst_wrap (gmst_greenwich (now_of now_spec) + (longitude cfg / 360) * 24)"

text \<open>Lines 234-237: hours, minutes, seconds and tenths by successive truncation.\<close>

definition h_of :: "real \<Rightarrow> int" where
  "h_of gmst = trunc_int gmst"

definition m_of :: "real \<Rightarrow> int" where
  "m_of gmst = trunc_int ((gmst - real_of_int (h_of gmst)) * 60)"

definition s_of :: "real \<Rightarrow> int" where
  "s_of gmst =
     trunc_int ((((gmst - real_of_int (h_of gmst)) * 60) - real_of_int (m_of gmst)) * 60)"

definition tenth_val_of :: "real \<Rightarrow> int" where
  "tenth_val_of gmst =
     trunc_int ((((((gmst - real_of_int (h_of gmst)) * 60) - real_of_int (m_of gmst)) * 60)
                  - real_of_int (s_of gmst)) * 10)"

subsection \<open>The frame of \<open>update_display\<close>\<close>

text \<open>Lines 239-242: the decode mode byte, "All decode except the misc digit".\<close>

definition sidereal_decode_mask :: "sidereal_config \<Rightarrow> byte" where
  "sidereal_decode_mask cfg =
     (let decode_mask = NOT (BV DIGIT_MISC);
          decode_mask = (if tenth_enable cfg = 0
                         then decode_mask AND NOT (BV DIGIT_100_MSEC) else decode_mask)
      in decode_mask)"

text \<open>Lines 253-256: the byte of the misc digit; \<open>s\<close> is the \<open>int\<close> seconds value.\<close>

definition sidereal_misc_digit :: "sidereal_config \<Rightarrow> int \<Rightarrow> byte" where
  "sidereal_misc_digit cfg s =
     (let misc_digit = (0 :: byte) in
      if colon cfg \<noteq> 0 \<and> (colon_blink cfg = 0 \<or> s smod 2 = 0)
      then misc_digit OR (MASK_COLON_HM OR MASK_COLON_MS)
      else misc_digit)"

text \<open>Lines 243-257: the nine register writes, in order, for the sidereal hour value.\<close>

definition sidereal_frame :: "sidereal_config \<Rightarrow> real \<Rightarrow> (byte \<times> byte) list" where
  "sidereal_frame cfg gmst =
     (let h = h_of gmst; m = m_of gmst; s = s_of gmst; tenth_val = tenth_val_of gmst in
      [(MAX_REG_DEC_MODE, sidereal_decode_mask cfg),
       (MAX_REG_MASK_BOTH OR DIGIT_10_HR, word_of_int (h sdiv 10)),
       (MAX_REG_MASK_BOTH OR DIGIT_1_HR, word_of_int (h smod 10)),
       (MAX_REG_MASK_BOTH OR DIGIT_10_MIN, word_of_int (m sdiv 10)),
       (MAX_REG_MASK_BOTH OR DIGIT_1_MIN, word_of_int (m smod 10)),
       (MAX_REG_MASK_BOTH OR DIGIT_10_SEC, word_of_int (s sdiv 10)),
       (MAX_REG_MASK_BOTH OR DIGIT_1_SEC,
          word_of_int (s smod 10) OR (if tenth_enable cfg \<noteq> 0 then MASK_DP else 0)),
       (MAX_REG_MASK_BOTH OR word_of_nat DIGIT_100_MSEC,
          word_of_int (if tenth_enable cfg \<noteq> 0 then tenth_val else 0)),
       (MAX_REG_MASK_BOTH OR word_of_nat DIGIT_MISC, sidereal_misc_digit cfg s)])"

subsection \<open>Effects: \<open>write_reg\<close>, \<open>schedule_timer\<close> and \<open>update_display\<close>\<close>

text \<open>
  A function that can call \<open>exit\<close> returns \<open>Inl status\<close> when it does, and \<open>Inr\<close> of
  its result when it returns to its caller.

  \<open>write_reg\<close> of SPI_Sidereal.c (lines 139-153): on failure it calls \<open>perror\<close> and
  \<open>exit(1)\<close>.
\<close>

definition sidereal_write_reg ::
  "(nat \<Rightarrow> bool) \<Rightarrow> byte \<Rightarrow> byte \<Rightarrow> spi_state \<Rightarrow> int + spi_state" where
  "sidereal_write_reg ok reg data st =
     (if ok (calls st)
      then Inr (st\<lparr>sent := sent st @ [(reg, data)], calls := Suc (calls st)\<rparr>)
      else Inl 1)"

fun sidereal_write_regs ::
  "(nat \<Rightarrow> bool) \<Rightarrow> (byte \<times> byte) list \<Rightarrow> spi_state \<Rightarrow> int + spi_state" where
  "sidereal_write_regs ok [] st = Inr st"
| "sidereal_write_regs ok ((reg, data) # ws) st =
     (case sidereal_write_reg ok reg data st of
        Inl status \<Rightarrow> Inl status
      | Inr st' \<Rightarrow> sidereal_write_regs ok ws st')"

text \<open>
  Lines 176-190 of \<open>schedule_timer\<close>: the absolute wake time computed from the clock
  reading \<open>now\<close>. The loop of lines 179-182 counts \<open>tenth_val\<close> down by tens and
  \<open>tv_sec\<close> up. \<open>tenth_val * TENTH_IN_NANOS\<close> multiplies an \<open>unsigned int\<close> below 10
  by a \<open>long\<close>: no wrap-around.
\<close>

function tenth_loop :: "int \<Rightarrow> 32 word \<Rightarrow> int \<times> 32 word" where
  "tenth_loop sec tenth_val =
     (if tenth_val \<ge> 10 then tenth_loop (sec + 1) (tenth_val - 10) else (sec, tenth_val))"
  by pat_completeness auto
termination
proof (relation "measure (\<lambda>(sec, tenth_val). unat tenth_val)")
  show "wf (measure (\<lambda>(sec, tenth_val). unat tenth_val))" by simp
next
  fix sec :: int and tenth_val :: "32 word"
  assume "10 \<le> tenth_val"
  then have "unat (tenth_val - 10) < unat tenth_val"
    by (simp add: unat_sub word_le_nat_alt)
  then show "((sec + 1, tenth_val - 10), (sec, tenth_val))
      \<in> measure (\<lambda>(sec, tenth_val). unat tenth_val)" by simp
qed

declare tenth_loop.simps [simp del]

definition schedule_timer_value :: "timespec \<Rightarrow> timespec" where
  "schedule_timer_value now =
     (let hundredth_val = (word_of_int (tv_nsec now sdiv HUNDREDTH_IN_NANOS) :: 32 word);
          tenth_val = (hundredth_val + 5) div 10 + 1;
          (sec, tenth_val) = tenth_loop (tv_sec now) tenth_val
      in if tenth_val \<noteq> 0
         then \<lparr>tv_sec = sec, tv_nsec = uint tenth_val * TENTH_IN_NANOS - FUDGE\<rparr>
         else \<lparr>tv_sec = sec - 1, tv_nsec = SECOND_IN_NANOS - FUDGE\<rparr>)"

text \<open>
  \<open>schedule_timer\<close> (lines 168-202): \<open>reading\<close> is the result of \<open>clock_gettime\<close>
  (\<open>None\<close> when it fails), \<open>settime_ok\<close> says whether \<open>timer_settime\<close> succeeds. It
  returns the wake time the one-shot timer is armed with.
\<close>

definition schedule_timer :: "timespec option \<Rightarrow> bool \<Rightarrow> int + timespec" where
  "schedule_timer reading settime_ok =
     (case reading of
        None \<Rightarrow> Inl 1
      | Some now \<Rightarrow> if settime_ok then Inr (schedule_timer_value now) else Inl 1)"

text \<open>
  \<open>update_display\<close> (lines 204-261), one tick: \<open>reading\<close> is the result of its own
  \<open>clock_gettime\<close>, \<open>reading2\<close> that of the one in \<open>schedule_timer\<close>. It returns the
  SPI device after the nine writes and the wake time of the next tick.
\<close>

record sidereal_env =
  reading :: "timespec option"
  reading2 :: "timespec option"
  spi_ok :: "nat \<Rightarrow> bool"
  settime_ok :: bool

definition update_display ::
  "sidereal_config \<Rightarrow> sidereal_env \<Rightarrow> spi_state \<Rightarrow> int + (spi_state \<times> timespec)" where
  "update_display cfg env st =
     (case reading env of
        None \<Rightarrow> Inl 1
      | Some now_spec \<Rightarrow>
          (case sidereal_write_regs (spi_ok env)
                  (sidereal_frame cfg (update_display_gmst cfg now_spec)) st of
             Inl status \<Rightarrow> Inl status
           | Inr st' \<Rightarrow>
               (case schedule_timer (reading2 env) (settime_ok env) of
                  Inl status \<Rightarrow> Inl status
                | Inr wake \<Rightarrow> Inr (st', wake))))"

section \<open>The \<open>-b\<close> option of both programs\<close>

text \<open>
  \<open>brightness = atoi(optarg) & 0xf\<close> (SPI_Clock.c line 152, SPI_Sidereal.c line 272).
  \<open>atoi\<close> is not code of the programs but the C library's. ISO C leaves its result
  undefined when the value read does not fit an \<open>int\<close>; the model is the GNU C library's,
  where \<open>atoi (nptr)\<close> is \<open>(int) strtol (nptr, NULL, 10)\<close>. \<open>strtol\<close> skips white
  space, reads an optional sign and the longest run of decimal digits (no digits give 0),
  and returns \<open>LONG_MAX\<close> or \<open>LONG_MIN\<close> when the value read is beyond the range of
  \<open>long\<close>. The width of \<open>long\<close> depends on the platform: 32 bits on 32 bit ARM,
  64 bits on 64 bit ARM. The conversion to \<open>int\<close> keeps the low 32 bits.
\<close>

datatype abi = ILP32 | LP64

fun long_bits :: "abi \<Rightarrow> nat" where
  "long_bits ILP32 = 32"
| "long_bits LP64 = 64"

definition LONG_MAX :: "abi \<Rightarrow> int" where
  "LONG_MAX abi = 2 ^ (long_bits abi - 1) - 1"

definition LONG_MIN :: "abi \<Rightarrow> int" where
  "LONG_MIN abi = - (2 ^ (long_bits abi - 1))"

definition isspace :: "char \<Rightarrow> bool" where
  "isspace c = (c \<in> set [CHR '' '', CHR 0x09, CHR 0x0A, CHR 0x0B, CHR 0x0C, CHR 0x0D])"

definition isdigit :: "char \<Rightarrow> bool" where
  "isdigit c = (48 \<le> (of_char c :: nat) \<and> (of_char c :: nat) \<le> 57)"

text \<open>The value that \<open>strtol\<close> reads in base 10, before it is checked against the range.\<close>

fun strtol_digits :: "int \<Rightarrow> string \<Rightarrow> int" where
  "strtol_digits acc [] = acc"
| "strtol_digits acc (c # cs) =
     (if isdigit c then strtol_digits (10 * acc + (of_char c - 48)) cs else acc)"

definition strtol_value :: "string \<Rightarrow> int" where
  "strtol_value nptr =
     (case dropWhile isspace nptr of
        [] \<Rightarrow> 0
      | c # cs \<Rightarrow>
          if c = CHR ''-'' then - strtol_digits 0 cs
          else if c = CHR ''+'' then strtol_digits 0 cs
          else strtol_digits 0 (c # cs))"

definition strtol :: "abi \<Rightarrow> string \<Rightarrow> int" where
  "strtol abi nptr =
     (let v = strtol_value nptr in
      if LONG_MAX abi < v then LONG_MAX abi
      else if v < LONG_MIN abi then LONG_MIN abi
      else v)"

definition atoi :: "abi \<Rightarrow> string \<Rightarrow> int" where
  "atoi abi nptr = sint (word_of_int (strtol abi nptr) :: 32 word)"

text \<open>
  The \<open>int\<close> operand of \<open>& 0xf\<close> is a signed 32 bit value; the assignment to the
  \<open>unsigned char\<close> keeps its low 8 bits.
\<close>

definition brightness_of :: "abi \<Rightarrow> string \<Rightarrow> byte" where
  "brightness_of abi optarg = ucast ((word_of_int (atoi abi optarg) :: 32 word) AND 0xf)"

text \<open>
  Lines 210-216 of SPI_Clock.c and 379-385 of SPI_Sidereal.c: the register writes of
  \<open>main\<close> before the first update; \<open>brightness\<close> goes to the intensity register
  as it is.
\<close>

definition MAX_REG_CONFIG_R :: byte where "MAX_REG_CONFIG_R = BV 5"
definition MAX_REG_CONFIG_T :: byte where "MAX_REG_CONFIG_T = BV 4"
definition MAX_REG_CONFIG_E :: byte where "MAX_REG_CONFIG_E = BV 3"
definition MAX_REG_CONFIG_B :: byte where "MAX_REG_CONFIG_B = BV 2"
definition MAX_REG_CONFIG_S :: byte where "MAX_REG_CONFIG_S = BV 0"

definition clock_init_writes :: "byte \<Rightarrow> (byte \<times> byte) list" where
  "clock_init_writes brightness =
     [(MAX_REG_CONFIG,
         MAX_REG_CONFIG_R OR MAX_REG_CONFIG_B OR MAX_REG_CONFIG_S OR MAX_REG_CONFIG_E),
      (MAX_REG_SCAN_LIMIT, 7),
      (MAX_REG_INTENSITY, brightness),
      (MAX_REG_TEST, 1),
      (MAX_REG_TEST, 0)]"

definition sidereal_init_writes :: "byte \<Rightarrow> (byte \<times> byte) list" where
  "sidereal_init_writes brightness =
     [(MAX_REG_CONFIG, MAX_REG_CONFIG_R OR MAX_REG_CONFIG_S),
      (MAX_REG_SCAN_LIMIT, 7),
      (MAX_REG_INTENSITY, brightness),
      (MAX_REG_TEST, 1),
      (MAX_REG_TEST, 0)]"

section \<open>Notions used to state the properties\<close>


text \<open>A time stamp in nanoseconds since the Unix epoch, and a well-formed clock reading.\<close>

definition total_nanos :: "timespec \<Rightarrow> int" where
  "total_nanos ts = tv_sec ts * SECOND_IN_NANOS + tv_nsec ts"

definition valid_reading :: "timespec \<Rightarrow> bool" where
  "valid_reading ts = (0 \<le> tv_nsec ts \<and> tv_nsec ts < SECOND_IN_NANOS)"

text \<open>
  Rounding a time in nanoseconds to tenths of a second: \<open>next_tenth_boundary\<close> is the
  first tenth boundary after \<open>t\<close>; \<open>nearest_tenth\<close> drops what is below a hundredth
  and rounds the hundredths to the nearest tenth, five hundredths and more upwards.
\<close>

definition nearest_tenth :: "int \<Rightarrow> int" where
  "nearest_tenth t = ((t div HUNDREDTH_IN_NANOS + 5) div 10) * TENTH_IN_NANOS"

definition next_tenth_boundary :: "int \<Rightarrow> int" where
  "next_tenth_boundary t = (t div TENTH_IN_NANOS + 1) * TENTH_IN_NANOS"

text \<open>
  The wake time of a tick in nanoseconds, as a function of the clock reading of that tick
  alone. A run of the timer is a list of the readings \<open>schedule_timer\<close> takes at
  consecutive ticks: \<open>timer_run\<close> says that each reading is taken at or after the wake
  time armed at the tick before (the timer does not fire early and the clock is not set
  back); \<open>prompt_run\<close> that it is taken less than half a tenth plus \<open>FUDGE\<close> after it.
  \<open>spacings\<close> lists the differences of consecutive elements.
\<close>

definition wake_nanos :: "timespec \<Rightarrow> int" where
  "wake_nanos now = total_nanos (schedule_timer_value now)"

fun timer_run :: "timespec list \<Rightarrow> bool" where
  "timer_run (r1 # r2 # rs) = (wake_nanos r1 \<le> total_nanos r2 \<and> timer_run (r2 # rs))"
| "timer_run rs = True"

fun prompt_run :: "timespec list \<Rightarrow> bool" where
  "prompt_run (r1 # r2 # rs) =
     (total_nanos r2 < wake_nanos r1 + 5 * HUNDREDTH_IN_NANOS + FUDGE \<and> prompt_run (r2 # rs))"
| "prompt_run rs = True"

fun spacings :: "int list \<Rightarrow> int list" where
  "spacings (a # b # xs) = (b - a) # spacings (b # xs)"
| "spacings xs = []"

text \<open>
  The spacing the specification asks of consecutive wake times: positive and one tenth of
  a second up to the latency compensation \<open>FUDGE\<close>.
\<close>

definition claimed_spacing :: "int \<Rightarrow> bool" where
  "claimed_spacing d = (0 < d \<and> \<bar>d - TENTH_IN_NANOS\<bar> \<le> FUDGE)"

text \<open>
  The specification's sidereal time. \<open>gmst_polynomial\<close> is its polynomial in \<open>D0\<close>,
  \<open>H\<close> and \<open>T\<close>. For an instant \<open>now\<close> in seconds since the Unix epoch (Julian date
  2440587.5): \<open>spec_julian_date\<close> is its Julian date, \<open>spec_midnight\<close> the most recent
  UTC midnight, \<open>spec_D0 ref\<close> the Julian date of that midnight as an offset from the
  Julian date \<open>ref\<close>, \<open>spec_H\<close> the hours elapsed since that midnight and
  \<open>spec_T epoch\<close> the Julian centuries elapsed since the Julian date \<open>epoch\<close>.
\<close>

definition gmst_polynomial :: "real \<Rightarrow> real \<Rightarrow> real \<Rightarrow> real" where
  "gmst_polynomial D0 H T =
     6.697374558 + 0.06570982441908 * D0 + 1.00273790935 * H + 0.000026 * T ^ 2"

definition spec_julian_date :: "real \<Rightarrow> real" where
  "spec_julian_date now = 2440587.5 + now / 86400"

definition spec_midnight :: "real \<Rightarrow> real" where
  "spec_midnight now = 86400 * real_of_int \<lfloor>now / 86400\<rfloor>"

definition spec_D0 :: "real \<Rightarrow> real \<Rightarrow> real" where
  "spec_D0 ref now = spec_julian_date (spec_midnight now) - ref"

definition spec_H :: "real \<Rightarrow> real" where
  "spec_H now = (now - spec_midnight now) / 3600"

definition spec_T :: "real \<Rightarrow> real \<Rightarrow> real" where
  "spec_T epoch now = (spec_julian_date now - epoch) / 36525"

definition spec_gmst :: "real \<Rightarrow> real \<Rightarrow> real \<Rightarrow> real" where
  "spec_gmst ref epoch now = gmst_polynomial (spec_D0 ref now) (spec_H now) (spec_T epoch now)"

section \<open>Properties\<close>

lemmas max6951_defs =
  BV_def MAX_REG_DEC_MODE_def MAX_REG_INTENSITY_def MAX_REG_SCAN_LIMIT_def
  MAX_REG_CONFIG_def MAX_REG_TEST_def MAX_REG_MASK_P0_def MAX_REG_MASK_P1_def
  MAX_REG_MASK_BOTH_def MASK_DP_def MASK_A_def MASK_B_def MASK_C_def MASK_D_def
  MASK_E_def MASK_F_def MASK_G_def MASK_COLON_HM_def MASK_COLON_MS_def MASK_AM_def
  MASK_PM_def

lemmas sidereal_const_defs =
  FUDGE_def SECOND_IN_NANOS_def TENTH_IN_NANOS_def HUNDREDTH_IN_NANOS_def EPOCH_CTIME_def
  EPOCH_JDATE_def DIGIT_10_HR_def DIGIT_1_HR_def DIGIT_10_MIN_def DIGIT_1_MIN_def
  DIGIT_10_SEC_def DIGIT_1_SEC_def DIGIT_100_MSEC_def DIGIT_MISC_def

lemmas config_bit_defs =
  MAX_REG_CONFIG_R_def MAX_REG_CONFIG_T_def MAX_REG_CONFIG_E_def MAX_REG_CONFIG_B_def
  MAX_REG_CONFIG_S_def

subsection \<open>The 12 hour display\<close>

text \<open>
  C6. In 12 hour mode (\<open>ampm\<close> set), for every hour of day from 0 to 23: hours 0 and 12
  are shown as 12, hours 1 to 11 unchanged, hours 13 to 23 as the hour minus 12, and the
  PM flag is set exactly when the hour of day is at least 12.
\<close>

theorem clock_hour_12h:
  assumes "0 \<le> hr" and "hr \<le> 23" and "ampm_flag \<noteq> 0"
  shows "uint (fst (clock_hour ampm_flag hr))
           = (if hr = 0 \<or> hr = 12 then 12 else if hr \<le> 11 then hr else hr - 12)
         \<and> (snd (clock_hour ampm_flag hr) \<noteq> 0) = (12 \<le> hr)"
proof -
  from assms have "hr \<in> set [0..23]" by simp
  then have "hr \<in> {0,1,2,3,4,5,6,7,8,9,10,11,12,13,14,15,16,17,18,19,20,21,22,23}"
    by (simp add: upto.simps)
  then show ?thesis using \<open>ampm_flag \<noteq> 0\<close>
    by (auto simp add: clock_hour_def Let_def)
qed

theorem clock_hour_12h_witness:
  "(0::int) \<le> 13 \<and> (13::int) \<le> 23 \<and> (1::byte) \<noteq> 0
   \<and> uint (fst (clock_hour 1 13)) = 1 \<and> snd (clock_hour 1 13) \<noteq> 0"
  using clock_hour_12h [of 13 1] by simp

subsection \<open>The decode mode byte\<close>

lemma clock_decode_mask_bit7: "\<not> bit (clock_decode_mask cfg h) 7"
  by (simp add: clock_decode_mask_def Let_def BV_def bit_simps)

lemma clock_decode_mask_bit6: "(\<not> bit (clock_decode_mask cfg h) 6) = (tenth cfg = 0)"
  by (simp add: clock_decode_mask_def Let_def BV_def bit_simps)

lemma sidereal_decode_mask_bit7: "\<not> bit (sidereal_decode_mask cfg) 7"
  by (simp add: sidereal_decode_mask_def Let_def BV_def DIGIT_MISC_def DIGIT_100_MSEC_def
      bit_simps)

lemma sidereal_decode_mask_bit6:
  "(\<not> bit (sidereal_decode_mask cfg) 6) = (tenth_enable cfg = 0)"
  by (simp add: sidereal_decode_mask_def Let_def BV_def DIGIT_MISC_def DIGIT_100_MSEC_def
      bit_simps)

lemma clock_frame_dec_mode:
  assumes "(reg, d) \<in> set (clock_frame cfg lt tenth_val)" and "reg = MAX_REG_DEC_MODE"
  shows "d = clock_decode_mask cfg (fst (clock_hour (ampm cfg) (tm_hour lt)))"
  using assms by (auto simp add: clock_frame_def Let_def max6951_defs case_prod_beta)

lemma sidereal_frame_dec_mode:
  assumes "(reg, d) \<in> set (sidereal_frame cfg gmst)" and "reg = MAX_REG_DEC_MODE"
  shows "d = sidereal_decode_mask cfg"
  using assms
  by (auto simp add: sidereal_frame_def Let_def max6951_defs sidereal_const_defs)

text \<open>
  C8. In every byte that a display update of either program writes to the decode mode
  register, the bit of the tenths digit (digit 6) is clear exactly when the tenths digit
  is disabled, and the bit of the indicator digit (digit 7) is clear.
\<close>

theorem decode_mask_bits:
  "((reg, d) \<in> set (clock_frame ccfg lt tenth_val) \<and> reg = MAX_REG_DEC_MODE
      \<longrightarrow> \<not> bit d 7 \<and> (\<not> bit d 6) = (tenth ccfg = 0))
   \<and> ((reg, d) \<in> set (sidereal_frame scfg gmst) \<and> reg = MAX_REG_DEC_MODE
      \<longrightarrow> \<not> bit d 7 \<and> (\<not> bit d 6) = (tenth_enable scfg = 0))"
proof (intro conjI impI)
  assume "(reg, d) \<in> set (clock_frame ccfg lt tenth_val) \<and> reg = MAX_REG_DEC_MODE"
  then have d: "d = clock_decode_mask ccfg (fst (clock_hour (ampm ccfg) (tm_hour lt)))"
    using clock_frame_dec_mode by blast
  show "\<not> bit d 7" unfolding d by (rule clock_decode_mask_bit7)
  show "(\<not> bit d 6) = (tenth ccfg = 0)" unfolding d by (rule clock_decode_mask_bit6)
next
  assume "(reg, d) \<in> set (sidereal_frame scfg gmst) \<and> reg = MAX_REG_DEC_MODE"
  then have d: "d = sidereal_decode_mask scfg"
    using sidereal_frame_dec_mode by blast
  show "\<not> bit d 7" unfolding d by (rule sidereal_decode_mask_bit7)
  show "(\<not> bit d 6) = (tenth_enable scfg = 0)"
    unfolding d by (rule sidereal_decode_mask_bit6)
qed

theorem decode_mask_bits_witness:
  "((1, 0x3F) \<in> set (clock_frame \<lparr>ampm = 0, clock_colon = 1, tenth = 0\<rparr>
                        \<lparr>tm_hour = 13, tm_min = 0, tm_sec = 0\<rparr> 0)
      \<and> 1 = MAX_REG_DEC_MODE)
   \<and> ((1, 0x3F) \<in> set (sidereal_frame
                          \<lparr>colon = 1, colon_blink = 1, tenth_enable = 0, longitude = 0\<rparr> 5)
      \<and> 1 = MAX_REG_DEC_MODE)
   \<and> \<not> bit (0x3F :: byte) 7 \<and> \<not> bit (0x3F :: byte) 6"
  using decode_mask_bits [of 1 "0x3F" "\<lparr>ampm = 0, clock_colon = 1, tenth = 0\<rparr>"
      "\<lparr>tm_hour = 13, tm_min = 0, tm_sec = 0\<rparr>" 0
      "\<lparr>colon = 1, colon_blink = 1, tenth_enable = 0, longitude = 0\<rparr>" 5]
  by (simp add: clock_frame_def sidereal_frame_def clock_hour_def clock_decode_mask_def
      sidereal_decode_mask_def max6951_defs sidereal_const_defs Let_def)

subsection \<open>The colons of the indicator digit\<close>






lemma sidereal_frame_misc:
  "last (sidereal_frame cfg gmst)
     = (MAX_REG_MASK_BOTH OR 7, sidereal_misc_digit cfg (s_of gmst))"
  by (simp add: sidereal_frame_def Let_def DIGIT_MISC_def)

lemma clock_frame_misc:
  "last (clock_frame cfg lt tenth_val)
     = (MAX_REG_MASK_BOTH + 7,
        clock_misc_digit cfg (snd (clock_hour (ampm cfg) (tm_hour lt))))"
  by (simp add: clock_frame_def Let_def case_prod_beta)



subsection \<open>The brightness option\<close>

lemmas strtol_defs = strtol_value_def isspace_def isdigit_def

lemma and_0xf_take_bit: "w AND 0xf = take_bit 4 w" for w :: "32 word"
  by (simp add: take_bit_eq_mask mask_eq_exp_minus_1)

lemma uint_take_bit_4_word_of_int: "uint (take_bit 4 (word_of_int k :: 32 word)) = take_bit 4 k"
  by (simp add: unsigned_take_bit_eq uint_word_of_int_eq)

lemma uint_ucast_byte: "uint (ucast (w :: 32 word) :: byte) = take_bit 8 (uint w)"
  by (simp add: unsigned_ucast_eq unsigned_take_bit_eq)

lemma word_of_int_atoi: "(word_of_int (atoi abi nptr) :: 32 word) = word_of_int (strtol abi nptr)"
  by (simp add: atoi_def)

lemma uint_brightness_of: "uint (brightness_of abi optarg) = strtol abi optarg mod 16"
proof -
  have "uint (brightness_of abi optarg) = take_bit 8 (take_bit 4 (strtol abi optarg))"
    unfolding brightness_of_def word_of_int_atoi and_0xf_take_bit uint_ucast_byte
      uint_take_bit_4_word_of_int
    by (rule refl)
  then show ?thesis
    by (simp add: take_bit_eq_mod)
qed

lemma brightness_of_eq: "brightness_of abi optarg = word_of_int (strtol abi optarg mod 16)"
  using uint_brightness_of [of abi optarg] by (metis word_of_int_uint)

lemma LONG_MAX_mod_16: "LONG_MAX abi mod 16 = 15"
  by (cases abi) (simp_all add: LONG_MAX_def)

lemma LONG_MIN_mod_16: "LONG_MIN abi mod 16 = 0"
  by (cases abi) (simp_all add: LONG_MIN_def)

lemma LONG_MIN_less_LONG_MAX: "LONG_MIN abi < LONG_MAX abi"
  by (cases abi) (simp_all add: LONG_MIN_def LONG_MAX_def)

text \<open>
  The digits are read as a decimal numeral: one more digit multiplies the value by ten and
  adds the digit, and reading stops at the first character that is not a digit.
\<close>

lemma strtol_digits_snoc:
  assumes "list_all isdigit ds" and "isdigit d"
  shows "strtol_digits acc (ds @ [d]) = 10 * strtol_digits acc ds + (of_char d - 48)"
  using assms by (induction ds arbitrary: acc) simp_all

lemma strtol_digits_stop:
  assumes "list_all isdigit ds" and "\<not> isdigit c"
  shows "strtol_digits acc (ds @ c # cs) = strtol_digits acc ds"
  using assms by (induction ds arbitrary: acc) simp_all

text \<open>
  C10, as stated, fails for an argument whose integer value is beyond the range of
  \<open>long\<close>. The value of \<open>9223372036854775808\<close> is 0 modulo 16, but with a 64 bit
  \<open>long\<close> the library returns \<open>LONG_MAX\<close> and the brightness is 15: the value is
  clamped before it is masked. The same holds for \<open>2147483648\<close> with a 32 bit \<open>long\<close>.
\<close>

theorem brightness_saturates:
  "strtol_value ''9223372036854775808'' = 9223372036854775808
   \<and> (9223372036854775808 :: int) mod 16 = 0
   \<and> brightness_of LP64 ''9223372036854775808'' = 15
   \<and> strtol_value ''2147483648'' = 2147483648
   \<and> (2147483648 :: int) mod 16 = 0
   \<and> brightness_of ILP32 ''2147483648'' = 15"
  by (simp add: brightness_of_eq strtol_def strtol_defs LONG_MAX_def LONG_MIN_def)

text \<open>
  C10, amended. For every argument string of \<open>-b\<close> whose integer value fits the C
  library's \<open>long\<close>, the brightness written to the intensity register is that value
  reduced to its low 4 bits, the value modulo 16: a value outside 0 to 15 wraps around
  instead of being clamped (\<open>-b 16\<close> gives 0, \<open>-b 255\<close> and \<open>-b -1\<close> give 15). For
  every argument string the brightness is between 0 and 15. A value above the range of
  \<open>long\<close> gives 15 and one below it gives 0.
\<close>

theorem brightness_low_4_bits:
  "(LONG_MIN abi \<le> strtol_value optarg \<and> strtol_value optarg \<le> LONG_MAX abi
      \<longrightarrow> uint (brightness_of abi optarg) = strtol_value optarg mod 16)
   \<and> (LONG_MAX abi < strtol_value optarg \<longrightarrow> brightness_of abi optarg = 15)
   \<and> (strtol_value optarg < LONG_MIN abi \<longrightarrow> brightness_of abi optarg = 0)
   \<and> brightness_of abi optarg \<le> 15
   \<and> clock_init_writes (brightness_of abi optarg) ! 2
        = (MAX_REG_INTENSITY, brightness_of abi optarg)
   \<and> sidereal_init_writes (brightness_of abi optarg) ! 2
        = (MAX_REG_INTENSITY, brightness_of abi optarg)
   \<and> brightness_of abi ''16'' = 0 \<and> brightness_of abi ''15'' = 15
   \<and> brightness_of abi ''7'' = 7 \<and> brightness_of abi ''255'' = 15
   \<and> brightness_of abi ''-1'' = 15 \<and> brightness_of abi '' +9'' = 9
   \<and> brightness_of abi ''12abc'' = 12 \<and> brightness_of abi ''abc'' = 0"
proof (intro conjI impI)
  assume "LONG_MIN abi \<le> strtol_value optarg \<and> strtol_value optarg \<le> LONG_MAX abi"
  then have "strtol abi optarg = strtol_value optarg"
    by (simp add: strtol_def Let_def)
  then show "uint (brightness_of abi optarg) = strtol_value optarg mod 16"
    by (simp only: uint_brightness_of)
next
  assume "LONG_MAX abi < strtol_value optarg"
  then have "strtol abi optarg = LONG_MAX abi"
    by (simp add: strtol_def Let_def)
  then show "brightness_of abi optarg = 15"
    by (simp add: brightness_of_eq LONG_MAX_mod_16)
next
  assume "strtol_value optarg < LONG_MIN abi"
  then have "strtol abi optarg = LONG_MIN abi"
    using LONG_MIN_less_LONG_MAX [of abi] by (simp add: strtol_def Let_def)
  then show "brightness_of abi optarg = 0"
    by (simp add: brightness_of_eq LONG_MIN_mod_16)
next
  have "uint (brightness_of abi optarg) \<le> 15"
    by (simp add: uint_brightness_of)
  then show "brightness_of abi optarg \<le> 15"
    by (simp add: word_le_def)
qed (cases abi; simp add: brightness_of_eq strtol_def strtol_defs LONG_MAX_def LONG_MIN_def
      clock_init_writes_def sidereal_init_writes_def)+

theorem brightness_low_4_bits_witness:
  "LONG_MIN LP64 \<le> strtol_value ''16'' \<and> strtol_value ''16'' \<le> LONG_MAX LP64
   \<and> strtol_value ''16'' mod 16 = 0 \<and> uint (brightness_of LP64 ''16'') = 0
   \<and> LONG_MAX LP64 < strtol_value ''9223372036854775808''
   \<and> brightness_of LP64 ''9223372036854775808'' = 15
   \<and> strtol_value ''-9223372036854775809'' < LONG_MIN LP64
   \<and> brightness_of LP64 ''-9223372036854775809'' = 0"
  using brightness_low_4_bits [of LP64 "''16''"]
    brightness_low_4_bits [of LP64 "''9223372036854775808''"]
    brightness_low_4_bits [of LP64 "''-9223372036854775809''"]
  by (simp add: strtol_defs LONG_MAX_def LONG_MIN_def)

subsection \<open>The wake time of \<open>schedule_timer\<close>\<close>

lemma sdiv_nonneg: "0 \<le> a \<Longrightarrow> 0 < b \<Longrightarrow> a sdiv b = a div b" for a b :: int
  by (cases "a = 0") (simp_all add: signed_divide_int_def)

lemma hundredth_bounds:
  assumes "valid_reading now"
  shows "0 \<le> tv_nsec now div 10000000" and "tv_nsec now div 10000000 \<le> 99"
proof -
  from assms have "0 \<le> tv_nsec now" and "tv_nsec now < 1000000000"
    by (simp_all add: valid_reading_def SECOND_IN_NANOS_def)
  then show "0 \<le> tv_nsec now div 10000000" and "tv_nsec now div 10000000 \<le> 99"
    by linarith+
qed

lemma hundredth_word:
  assumes "valid_reading now"
  shows "(word_of_int (tv_nsec now sdiv HUNDREDTH_IN_NANOS) + 5) div 10 + 1
           = (word_of_int ((tv_nsec now div 10000000 + 5) div 10 + 1) :: 32 word)"
proof -
  let ?c = "tv_nsec now div 10000000"
  have c: "0 \<le> ?c" "?c \<le> 99"
    using assms by (rule hundredth_bounds)+
  have s: "tv_nsec now sdiv HUNDREDTH_IN_NANOS = ?c"
    using assms by (simp add: valid_reading_def sidereal_const_defs sdiv_nonneg)
  have "uint (word_of_int ?c :: 32 word) = ?c"
    using c by (simp add: uint_word_of_int_eq take_bit_int_eq_self)
  then have u: "uint (word_of_int ?c + 5 :: 32 word) = ?c + 5"
    using c uint_add_lem [of "word_of_int ?c :: 32 word" 5] by simp
  have "uint ((word_of_int ?c + 5 :: 32 word) div 10) = (?c + 5) div 10"
    by (simp add: uint_div u)
  then have "(word_of_int ?c + 5 :: 32 word) div 10 = word_of_int ((?c + 5) div 10)"
    by (metis word_of_int_uint)
  then show ?thesis
    unfolding s by simp
qed

lemma tenth_loop_below_10:
  assumes "tenth_val < 10"
  shows "tenth_loop sec tenth_val = (sec, tenth_val)"
proof -
  from assms have "\<not> 10 \<le> tenth_val" by (simp add: linorder_not_le)
  then show ?thesis by (subst tenth_loop.simps) simp
qed

lemma tenth_loop_10: "tenth_loop sec 10 = (sec + 1, 0)"
proof -
  have "(0 :: 32 word) < 10" by (simp add: word_less_def)
  then have "tenth_loop (sec + 1) 0 = (sec + 1, 0)" by (rule tenth_loop_below_10)
  then show ?thesis by (subst tenth_loop.simps) simp
qed

lemma tenth_loop_11: "tenth_loop sec 11 = (sec + 1, 1)"
proof -
  have "(1 :: 32 word) < 10" by (simp add: word_less_def)
  then have "tenth_loop (sec + 1) 1 = (sec + 1, 1)" by (rule tenth_loop_below_10)
  then show ?thesis by (subst tenth_loop.simps) simp
qed

lemma wake_of_tenth_val:
  assumes "1 \<le> k" "k \<le> 11"
  shows "(case tenth_loop sec (word_of_int k) of
              (sec', tenth_val) \<Rightarrow>
                if tenth_val \<noteq> 0
                then \<lparr>tv_sec = sec', tv_nsec = uint tenth_val * TENTH_IN_NANOS - FUDGE\<rparr>
                else \<lparr>tv_sec = sec' - 1, tv_nsec = SECOND_IN_NANOS - FUDGE\<rparr>)
         = (if k < 10 then \<lparr>tv_sec = sec, tv_nsec = k * 100000000 - 250000\<rparr>
            else if k = 10 then \<lparr>tv_sec = sec, tv_nsec = 999750000\<rparr>
            else \<lparr>tv_sec = sec + 1, tv_nsec = 99750000\<rparr>)"
proof (cases "k < 10")
  case True
  with assms have u: "uint (word_of_int k :: 32 word) = k"
    by (simp add: uint_word_of_int_eq take_bit_int_eq_self)
  then have "(word_of_int k :: 32 word) < 10" and "(word_of_int k :: 32 word) \<noteq> 0"
    using True assms by (auto simp add: word_less_def)
  then show ?thesis using True
    by (simp add: tenth_loop_below_10 u sidereal_const_defs sdiv_nonneg)
next
  case False
  with assms have "k = 10 \<or> k = 11" by linarith
  then show ?thesis
    by (auto simp add: tenth_loop_10 tenth_loop_11 sidereal_const_defs sdiv_nonneg)
qed

lemma schedule_timer_value_eq:
  assumes "valid_reading now"
  shows "schedule_timer_value now =
     (let k = (tv_nsec now div 10000000 + 5) div 10 + 1 in
      if k < 10 then \<lparr>tv_sec = tv_sec now, tv_nsec = k * 100000000 - 250000\<rparr>
      else if k = 10 then \<lparr>tv_sec = tv_sec now, tv_nsec = 999750000\<rparr>
      else \<lparr>tv_sec = tv_sec now + 1, tv_nsec = 99750000\<rparr>)"
proof -
  let ?c = "tv_nsec now div 10000000"
  let ?k = "(?c + 5) div 10 + 1"
  have c: "0 \<le> ?c" "?c \<le> 99"
    using assms by (rule hundredth_bounds)+
  then have k: "1 \<le> ?k" "?k \<le> 11" by linarith+
  show ?thesis
    unfolding schedule_timer_value_def Let_def hundredth_word [OF assms]
    by (rule wake_of_tenth_val [OF k])
qed

lemma wake_nanos_eq:
  assumes "valid_reading now"
  shows "wake_nanos now = nearest_tenth (total_nanos now) + TENTH_IN_NANOS - FUDGE"
proof -
  let ?c = "tv_nsec now div 10000000"
  let ?k = "(?c + 5) div 10 + 1"
  have c: "0 \<le> ?c" "?c \<le> 99"
    using assms by (rule hundredth_bounds)+
  then have k: "1 \<le> ?k" "?k \<le> 11" by linarith+
  have q1: "(tv_sec now * 1000000000 + tv_nsec now) div 10000000 = tv_sec now * 100 + ?c"
    by linarith
  have q2: "(tv_sec now * 100 + ?c + 5) div 10 = tv_sec now * 10 + (?c + 5) div 10"
    by linarith
  have r: "nearest_tenth (total_nanos now) + TENTH_IN_NANOS - FUDGE
      = tv_sec now * 1000000000 + ?k * 100000000 - 250000"
    unfolding nearest_tenth_def total_nanos_def sidereal_const_defs
    by (simp add: sdiv_nonneg q1 q2)
  have l: "wake_nanos now = tv_sec now * 1000000000 + ?k * 100000000 - 250000"
    unfolding wake_nanos_def schedule_timer_value_eq [OF assms] Let_def
    using k by (auto simp add: total_nanos_def sidereal_const_defs sdiv_nonneg)
  show ?thesis by (simp only: l r)
qed

lemma valid_reading_wake:
  assumes "valid_reading now"
  shows "valid_reading (schedule_timer_value now)"
proof -
  let ?c = "tv_nsec now div 10000000"
  let ?k = "(?c + 5) div 10 + 1"
  have c: "0 \<le> ?c" "?c \<le> 99"
    using assms by (rule hundredth_bounds)+
  then have k: "1 \<le> ?k" "?k \<le> 11" by linarith+
  show ?thesis
    unfolding schedule_timer_value_eq [OF assms] Let_def
    using k by (auto simp add: valid_reading_def sidereal_const_defs sdiv_nonneg)
qed

lemma hundredth_of_wake: "(a * 100000000 + 99750000) div 10000000 = 10 * a + 9" for a :: int
  by linarith

lemma tenth_of_hundredth_lower:
  fixes a h :: int
  assumes "10 * a + 9 \<le> h"
  shows "a + 1 \<le> (h + 5) div 10"
  using assms by linarith

lemma nearest_tenth_mono_step:
  assumes "nearest_tenth t1 + TENTH_IN_NANOS - FUDGE \<le> t2"
  shows "nearest_tenth t1 + TENTH_IN_NANOS \<le> nearest_tenth t2"
proof -
  define a where "a = (t1 div 10000000 + 5) div 10"
  have "a * 100000000 + 99750000 \<le> t2"
    using assms by (simp add: nearest_tenth_def sidereal_const_defs sdiv_nonneg a_def)
  then have "(a * 100000000 + 99750000) div 10000000 \<le> t2 div 10000000"
    by (rule zdiv_mono1) simp
  then have "10 * a + 9 \<le> t2 div 10000000"
    by (simp only: hundredth_of_wake)
  then have "a + 1 \<le> (t2 div 10000000 + 5) div 10"
    by (rule tenth_of_hundredth_lower)
  then show ?thesis
    by (simp add: nearest_tenth_def sidereal_const_defs sdiv_nonneg a_def)
qed

lemma nearest_tenth_prompt_step:
  assumes "nearest_tenth t1 + TENTH_IN_NANOS - FUDGE \<le> t2"
    and "t2 < nearest_tenth t1 + TENTH_IN_NANOS - FUDGE + (5 * HUNDREDTH_IN_NANOS + FUDGE)"
  shows "nearest_tenth t2 = nearest_tenth t1 + TENTH_IN_NANOS"
proof -
  define a where "a = (t1 div 10000000 + 5) div 10"
  have lo: "a * 100000000 + 99750000 \<le> t2" and hi: "t2 < a * 100000000 + 150000000"
    using assms by (simp_all add: nearest_tenth_def sidereal_const_defs sdiv_nonneg a_def)
  from lo have "(a * 100000000 + 99750000) div 10000000 \<le> t2 div 10000000"
    by (rule zdiv_mono1) simp
  then have l: "10 * a + 9 \<le> t2 div 10000000"
    by (simp only: hundredth_of_wake)
  from hi have "t2 \<le> a * 100000000 + 149999999" by simp
  then have "t2 div 10000000 \<le> (a * 100000000 + 149999999) div 10000000"
    by (rule zdiv_mono1) simp
  moreover have "(a * 100000000 + 149999999) div 10000000 = 10 * a + 14"
    by linarith
  ultimately have h: "t2 div 10000000 \<le> 10 * a + 14" by simp
  from l h have "(t2 div 10000000 + 5) div 10 = a + 1" by linarith
  then show ?thesis
    by (simp add: nearest_tenth_def sidereal_const_defs sdiv_nonneg a_def)
qed

lemma wake_step:
  assumes "valid_reading r1" and "valid_reading r2" and "wake_nanos r1 \<le> total_nanos r2"
  shows "wake_nanos r1 + TENTH_IN_NANOS \<le> wake_nanos r2"
    and "(wake_nanos r2 - wake_nanos r1) mod TENTH_IN_NANOS = 0"
    and "total_nanos r2 < wake_nanos r1 + (5 * HUNDREDTH_IN_NANOS + FUDGE)
           \<Longrightarrow> wake_nanos r2 - wake_nanos r1 = TENTH_IN_NANOS"
proof -
  note w1 = wake_nanos_eq [OF assms(1)] and w2 = wake_nanos_eq [OF assms(2)]
  from assms(3) have "nearest_tenth (total_nanos r1) + TENTH_IN_NANOS - FUDGE \<le> total_nanos r2"
    by (simp only: w1)
  then have "nearest_tenth (total_nanos r1) + TENTH_IN_NANOS \<le> nearest_tenth (total_nanos r2)"
    by (rule nearest_tenth_mono_step)
  then show "wake_nanos r1 + TENTH_IN_NANOS \<le> wake_nanos r2"
    by (simp add: w1 w2)
  show "(wake_nanos r2 - wake_nanos r1) mod TENTH_IN_NANOS = 0"
    by (simp add: w1 w2 nearest_tenth_def flip: left_diff_distrib)
  assume "total_nanos r2 < wake_nanos r1 + (5 * HUNDREDTH_IN_NANOS + FUDGE)"
  with assms(3) have "nearest_tenth (total_nanos r2) = nearest_tenth (total_nanos r1) + TENTH_IN_NANOS"
    unfolding w1 by (rule nearest_tenth_prompt_step)
  then show "wake_nanos r2 - wake_nanos r1 = TENTH_IN_NANOS"
    by (simp add: w1 w2)
qed

lemma nearest_tenth_first_half:
  assumes "t div HUNDREDTH_IN_NANOS mod 10 < 5"
  shows "nearest_tenth t + TENTH_IN_NANOS = next_tenth_boundary t"
proof -
  define h where "h = t div 10000000"
  have "t div 100000000 = h div 10"
    unfolding h_def by (simp add: div_mult2_eq [symmetric])
  moreover have "(h + 5) div 10 = h div 10"
    using assms by (simp add: sidereal_const_defs sdiv_nonneg flip: h_def) presburger
  ultimately show ?thesis
    by (simp add: nearest_tenth_def next_tenth_boundary_def sidereal_const_defs sdiv_nonneg
        flip: h_def)
qed

lemma nearest_tenth_second_half:
  assumes "5 \<le> t div HUNDREDTH_IN_NANOS mod 10"
  shows "nearest_tenth t + TENTH_IN_NANOS = next_tenth_boundary t + TENTH_IN_NANOS"
proof -
  define h where "h = t div 10000000"
  have "t div 100000000 = h div 10"
    unfolding h_def by (simp add: div_mult2_eq [symmetric])
  moreover have "(h + 5) div 10 = h div 10 + 1"
    using assms by (simp add: sidereal_const_defs sdiv_nonneg flip: h_def) presburger
  ultimately show ?thesis
    by (simp add: nearest_tenth_def next_tenth_boundary_def sidereal_const_defs sdiv_nonneg
        flip: h_def)
qed

text \<open>
  C3, as stated, fails: a reading of 0.05 s is in the second half of its tenth; the next
  tenth boundary is 0.1 s, but the wake time is 0.2 s minus \<open>FUDGE\<close>.
\<close>

theorem schedule_timer_not_next_tenth:
  "valid_reading \<lparr>tv_sec = 0, tv_nsec = 50000000\<rparr>
   \<and> schedule_timer_value \<lparr>tv_sec = 0, tv_nsec = 50000000\<rparr>
         = \<lparr>tv_sec = 0, tv_nsec = 199750000\<rparr>
   \<and> next_tenth_boundary (total_nanos \<lparr>tv_sec = 0, tv_nsec = 50000000\<rparr>) - FUDGE = 99750000
   \<and> total_nanos (schedule_timer_value \<lparr>tv_sec = 0, tv_nsec = 50000000\<rparr>)
         \<noteq> next_tenth_boundary (total_nanos \<lparr>tv_sec = 0, tv_nsec = 50000000\<rparr>) - FUDGE"
proof -
  have v: "valid_reading \<lparr>tv_sec = 0, tv_nsec = 50000000\<rparr>"
    by (simp add: valid_reading_def SECOND_IN_NANOS_def)
  have w: "schedule_timer_value \<lparr>tv_sec = 0, tv_nsec = 50000000\<rparr>
         = \<lparr>tv_sec = 0, tv_nsec = 199750000\<rparr>"
    by (simp add: schedule_timer_value_eq [OF v])
  have n: "next_tenth_boundary (total_nanos \<lparr>tv_sec = 0, tv_nsec = 50000000\<rparr>) - FUDGE = 99750000"
    by (simp add: next_tenth_boundary_def total_nanos_def sidereal_const_defs sdiv_nonneg)
  show ?thesis
    unfolding w n using v by (simp add: total_nanos_def SECOND_IN_NANOS_def)
qed

text \<open>
  C3, amended. For every clock reading with nanoseconds in range, the wake time that
  \<open>schedule_timer\<close> arms is the reading rounded to the nearest tenth of a second
  (hundredths truncated, five hundredths and more rounded up), plus one tenth, minus
  \<open>FUDGE\<close>. That is the next tenth boundary minus \<open>FUDGE\<close> for a reading in the first half
  of its tenth, and one tenth later for a reading in the second half.
\<close>

theorem schedule_timer_nearest_tenth:
  assumes "valid_reading now"
  shows "schedule_timer (Some now) True = Inr (schedule_timer_value now)
     \<and> total_nanos (schedule_timer_value now)
          = nearest_tenth (total_nanos now) + TENTH_IN_NANOS - FUDGE
     \<and> valid_reading (schedule_timer_value now)
     \<and> (total_nanos now div HUNDREDTH_IN_NANOS mod 10 < 5
          \<longrightarrow> total_nanos (schedule_timer_value now)
                = next_tenth_boundary (total_nanos now) - FUDGE)
     \<and> (5 \<le> total_nanos now div HUNDREDTH_IN_NANOS mod 10
          \<longrightarrow> total_nanos (schedule_timer_value now)
                = next_tenth_boundary (total_nanos now) + TENTH_IN_NANOS - FUDGE)"
proof -
  have w: "total_nanos (schedule_timer_value now)
          = nearest_tenth (total_nanos now) + TENTH_IN_NANOS - FUDGE"
    using wake_nanos_eq [OF assms] by (simp only: wake_nanos_def)
  show ?thesis
    unfolding w
    using valid_reading_wake [OF assms] nearest_tenth_first_half [of "total_nanos now"]
      nearest_tenth_second_half [of "total_nanos now"]
    by (simp add: schedule_timer_def)
qed

theorem schedule_timer_nearest_tenth_witness:
  "valid_reading \<lparr>tv_sec = 7, tv_nsec = 20000000\<rparr>
   \<and> valid_reading \<lparr>tv_sec = 7, tv_nsec = 950000000\<rparr>
   \<and> total_nanos \<lparr>tv_sec = 7, tv_nsec = 20000000\<rparr> div HUNDREDTH_IN_NANOS mod 10 < 5
   \<and> 5 \<le> total_nanos \<lparr>tv_sec = 7, tv_nsec = 950000000\<rparr> div HUNDREDTH_IN_NANOS mod 10
   \<and> total_nanos (schedule_timer_value \<lparr>tv_sec = 7, tv_nsec = 20000000\<rparr>) = 7099750000
   \<and> total_nanos (schedule_timer_value \<lparr>tv_sec = 7, tv_nsec = 950000000\<rparr>) = 8099750000
   \<and> schedule_timer (Some \<lparr>tv_sec = 7, tv_nsec = 950000000\<rparr>) True
        = Inr (schedule_timer_value \<lparr>tv_sec = 7, tv_nsec = 950000000\<rparr>)"
proof -
  have v1: "valid_reading \<lparr>tv_sec = 7, tv_nsec = 20000000\<rparr>"
    and v2: "valid_reading \<lparr>tv_sec = 7, tv_nsec = 950000000\<rparr>"
    by (simp_all add: valid_reading_def SECOND_IN_NANOS_def)
  show ?thesis
    using schedule_timer_nearest_tenth [OF v1] schedule_timer_nearest_tenth [OF v2] v1 v2
    by (simp add: total_nanos_def nearest_tenth_def next_tenth_boundary_def
        sidereal_const_defs sdiv_nonneg)
qed

subsection \<open>Consecutive wake times\<close>

text \<open>
  The wake time that \<open>update_display\<close> returns is computed from the clock reading
  taken inside \<open>schedule_timer\<close> at that tick and from nothing else.
\<close>

lemma update_display_wake:
  assumes "update_display cfg env st = Inr (st', wake)"
  shows "\<exists>now. reading2 env = Some now \<and> wake = schedule_timer_value now"
  using assms
  by (auto simp add: update_display_def schedule_timer_def split: option.splits sum.splits if_splits)

text \<open>
  C4, amended. For every run of consecutive ticks, of any length and for any seconds
  value (so also across a minute, hour or day boundary), in which each clock reading is
  well formed and taken at or after the wake time armed at the tick before: the wake
  times are strictly increasing, and each exceeds the one before by a whole number, at
  least one, of tenths of a second. The spacing is one tenth exactly whenever the reading
  is taken less than half a tenth plus \<open>FUDGE\<close> (50.25 ms) after the wake time before.
  Each wake time is \<open>wake_nanos\<close> of its own reading.
\<close>

theorem wake_times_increasing:
  assumes "list_all valid_reading rs" and "timer_run rs"
  shows "sorted_wrt (<) (map wake_nanos rs)
     \<and> list_all (\<lambda>d. TENTH_IN_NANOS \<le> d \<and> d mod TENTH_IN_NANOS = 0)
          (spacings (map wake_nanos rs))
     \<and> (prompt_run rs
          \<longrightarrow> list_all (\<lambda>d. d = TENTH_IN_NANOS) (spacings (map wake_nanos rs)))"
  using assms
proof (induction rs rule: timer_run.induct)
  case (1 r1 r2 rs)
  then have v: "valid_reading r1" "valid_reading r2" and le: "wake_nanos r1 \<le> total_nanos r2"
    by simp_all
  note st = wake_step [OF v le]
  have ih: "sorted_wrt (<) (map wake_nanos (r2 # rs))
     \<and> list_all (\<lambda>d. TENTH_IN_NANOS \<le> d \<and> d mod TENTH_IN_NANOS = 0)
          (spacings (map wake_nanos (r2 # rs)))
     \<and> (prompt_run (r2 # rs)
          \<longrightarrow> list_all (\<lambda>d. d = TENTH_IN_NANOS) (spacings (map wake_nanos (r2 # rs))))"
    using 1 by simp
  have lt: "wake_nanos r1 < wake_nanos r2"
    using st(1) by (simp add: sidereal_const_defs sdiv_nonneg)
  have "sorted_wrt (<) (wake_nanos r1 # map wake_nanos (r2 # rs))"
    using ih lt by auto
  then show ?case
    using ih st by auto
qed simp_all

theorem wake_times_increasing_witness:
  "list_all valid_reading
     [\<lparr>tv_sec = 86399, tv_nsec = 950000000\<rparr>, \<lparr>tv_sec = 86400, tv_nsec = 99800000\<rparr>,
      \<lparr>tv_sec = 86400, tv_nsec = 199750000\<rparr>]
   \<and> timer_run
     [\<lparr>tv_sec = 86399, tv_nsec = 950000000\<rparr>, \<lparr>tv_sec = 86400, tv_nsec = 99800000\<rparr>,
      \<lparr>tv_sec = 86400, tv_nsec = 199750000\<rparr>]
   \<and> prompt_run
     [\<lparr>tv_sec = 86399, tv_nsec = 950000000\<rparr>, \<lparr>tv_sec = 86400, tv_nsec = 99800000\<rparr>,
      \<lparr>tv_sec = 86400, tv_nsec = 199750000\<rparr>]
   \<and> map wake_nanos
     [\<lparr>tv_sec = 86399, tv_nsec = 950000000\<rparr>, \<lparr>tv_sec = 86400, tv_nsec = 99800000\<rparr>,
      \<lparr>tv_sec = 86400, tv_nsec = 199750000\<rparr>]
     = [86400099750000, 86400199750000, 86400299750000]
   \<and> sorted_wrt (<) [86400099750000, 86400199750000, 86400299750000 :: int]
   \<and> spacings [86400099750000, 86400199750000, 86400299750000] = [TENTH_IN_NANOS, TENTH_IN_NANOS]"
proof -
  let ?rs = "[\<lparr>tv_sec = 86399, tv_nsec = 950000000\<rparr>, \<lparr>tv_sec = 86400, tv_nsec = 99800000\<rparr>,
      \<lparr>tv_sec = 86400, tv_nsec = 199750000\<rparr>]"
  have w1: "wake_nanos \<lparr>tv_sec = 86399, tv_nsec = 950000000\<rparr> = 86400099750000"
    and w2: "wake_nanos \<lparr>tv_sec = 86400, tv_nsec = 99800000\<rparr> = 86400199750000"
    and w3: "wake_nanos \<lparr>tv_sec = 86400, tv_nsec = 199750000\<rparr> = 86400299750000"
    by (simp_all add: wake_nanos_eq valid_reading_def nearest_tenth_def total_nanos_def
        sidereal_const_defs sdiv_nonneg)
  have v: "list_all valid_reading ?rs"
    by (simp add: valid_reading_def SECOND_IN_NANOS_def)
  have t: "timer_run ?rs"
    by (simp add: w1 w2 total_nanos_def SECOND_IN_NANOS_def)
  have p: "prompt_run ?rs"
    by (simp add: w1 w2 total_nanos_def sidereal_const_defs sdiv_nonneg)
  show ?thesis
    using wake_times_increasing [OF v t] v t p
    by (simp add: w1 w2 w3 sidereal_const_defs sdiv_nonneg)
qed

text \<open>
  C4, as stated, fails. A tick that runs 60 ms late is followed by a wake time two tenths
  after the one before; and when the clock is set back between two ticks the wake time
  decreases.
\<close>

theorem late_tick_spacing:
  "valid_reading \<lparr>tv_sec = 0, tv_nsec = 0\<rparr>
   \<and> valid_reading \<lparr>tv_sec = 0, tv_nsec = 160000000\<rparr>
   \<and> timer_run [\<lparr>tv_sec = 0, tv_nsec = 0\<rparr>, \<lparr>tv_sec = 0, tv_nsec = 160000000\<rparr>]
   \<and> spacings (map wake_nanos [\<lparr>tv_sec = 0, tv_nsec = 0\<rparr>, \<lparr>tv_sec = 0, tv_nsec = 160000000\<rparr>])
        = [200000000]
   \<and> \<not> claimed_spacing 200000000
   \<and> valid_reading \<lparr>tv_sec = 10, tv_nsec = 0\<rparr>
   \<and> valid_reading \<lparr>tv_sec = 5, tv_nsec = 0\<rparr>
   \<and> spacings (map wake_nanos [\<lparr>tv_sec = 10, tv_nsec = 0\<rparr>, \<lparr>tv_sec = 5, tv_nsec = 0\<rparr>])
        = [- 5000000000]
   \<and> \<not> claimed_spacing (- 5000000000)"
proof -
  have "wake_nanos \<lparr>tv_sec = 0, tv_nsec = 0\<rparr> = 99750000"
    and "wake_nanos \<lparr>tv_sec = 0, tv_nsec = 160000000\<rparr> = 299750000"
    and "wake_nanos \<lparr>tv_sec = 10, tv_nsec = 0\<rparr> = 10099750000"
    and "wake_nanos \<lparr>tv_sec = 5, tv_nsec = 0\<rparr> = 5099750000"
    by (simp_all add: wake_nanos_eq valid_reading_def nearest_tenth_def total_nanos_def
        sidereal_const_defs sdiv_nonneg)
  then show ?thesis
    by (simp add: valid_reading_def claimed_spacing_def total_nanos_def sidereal_const_defs
        sdiv_nonneg)
qed

subsection \<open>The sidereal time of \<open>update_display\<close>\<close>

lemmas spec_gmst_defs = gmst_polynomial_def spec_julian_date_def spec_midnight_def spec_D0_def spec_H_def spec_T_def spec_gmst_def

lemmas gmst_defs = gmst_greenwich_def  D0_of_def H_of_def T_of_def JD_of_def JD0_of_def 

lemma trunc_int_nonneg: "0 \<le> x \<Longrightarrow> trunc_int x = \<lfloor>x\<rfloor>"
  by (simp add: trunc_int_def)

lemma now_of_nonneg: "0 \<le> tv_sec ts \<Longrightarrow> 0 \<le> tv_nsec ts \<Longrightarrow> 0 \<le> now_of ts"
  by (simp add: now_of_def SECOND_IN_NANOS_def)

lemma ceiling_last_second: "\<lceil>- (1 / 86400 :: real)\<rceil> = 0"
  by (rule ceiling_unique) simp_all

text \<open>
  C5, as stated, fails on \<open>T\<close>. At 2000-01-01T12:00 UTC the code's \<open>T\<close> is 0: it counts
  the centuries from Julian date 2451545.0, which is that instant, and not from
  2451544.5; the value of the polynomial differs from the one with \<open>T\<close> counted from
  2451544.5, whichever of the two dates \<open>D0\<close> is an offset from. And one second before
  1970 the code's \<open>H\<close> is negative, the conversion to \<open>long\<close> having rounded to the
  midnight that follows.
\<close>

theorem gmst_T_epoch_counterexample:
  "T_of (now_of \<lparr>tv_sec = 946728000, tv_nsec = 0\<rparr>) = 0
   \<and> spec_T 2451544.5 (now_of \<lparr>tv_sec = 946728000, tv_nsec = 0\<rparr>) = 1 / 73050
   \<and> gmst_greenwich (now_of \<lparr>tv_sec = 946728000, tv_nsec = 0\<rparr>)
        \<noteq> spec_gmst 2451545 2451544.5 (now_of \<lparr>tv_sec = 946728000, tv_nsec = 0\<rparr>)
   \<and> gmst_greenwich (now_of \<lparr>tv_sec = 946728000, tv_nsec = 0\<rparr>)
        \<noteq> spec_gmst 2451544.5 2451544.5 (now_of \<lparr>tv_sec = 946728000, tv_nsec = 0\<rparr>)
   \<and> H_of (now_of \<lparr>tv_sec = - 1, tv_nsec = 0\<rparr>) = - (1 / 3600)
   \<and> spec_H (now_of \<lparr>tv_sec = - 1, tv_nsec = 0\<rparr>) = 86399 / 3600"
  by (simp add: gmst_defs spec_gmst_defs now_of_def trunc_int_def sidereal_const_defs
      power2_eq_square ceiling_last_second)

text \<open>
  C5, amended. For every clock reading at or after 1970-01-01T00:00 UTC,
  \<open>update_display\<close> computes Greenwich mean sidereal time in hours as the polynomial
  \<open>6.697374558 + 0.06570982441908 D0 + 1.00273790935 H + 0.000026 T\<^sup>2\<close>, where \<open>D0\<close>
  is the Julian date of the most recent UTC midnight minus 2451545.0, \<open>H\<close> the hours
  elapsed since that midnight, and \<open>T\<close> the Julian centuries elapsed since Julian date
  2451545.0 (2000-01-01T12:00 UTC). The arithmetic is exact here; the code's is floating
  point.
\<close>

theorem gmst_greenwich_polynomial:
  assumes "0 \<le> tv_sec now_spec" and "0 \<le> tv_nsec now_spec"
  shows "gmst_greenwich (now_of now_spec)
           = gmst_polynomial (D0_of (now_of now_spec)) (H_of (now_of now_spec))
               (T_of (now_of now_spec))
     \<and> D0_of (now_of now_spec) = spec_D0 2451545 (now_of now_spec)
     \<and> H_of (now_of now_spec) = spec_H (now_of now_spec)
     \<and> T_of (now_of now_spec) = spec_T 2451545 (now_of now_spec)"
proof -
  have "0 \<le> now_of now_spec"
    using assms by (rule now_of_nonneg)
  then have t: "trunc_int (now_of now_spec / 86400) = \<lfloor>now_of now_spec / 86400\<rfloor>"
    by (simp add: trunc_int_nonneg)
  have "gmst_greenwich (now_of now_spec)
           = gmst_polynomial (D0_of (now_of now_spec)) (H_of (now_of now_spec))
               (T_of (now_of now_spec))"
    by (simp add: gmst_greenwich_def gmst_polynomial_def power2_eq_square)
  moreover have "D0_of (now_of now_spec) = spec_D0 2451545 (now_of now_spec)"
    unfolding gmst_defs spec_gmst_defs t EPOCH_JDATE_def EPOCH_CTIME_def
    by (simp add: field_simps)
  moreover have "H_of (now_of now_spec) = spec_H (now_of now_spec)"
    unfolding gmst_defs spec_gmst_defs t EPOCH_JDATE_def EPOCH_CTIME_def
    by (simp add: field_simps)
  moreover have "T_of (now_of now_spec) = spec_T 2451545 (now_of now_spec)"
    unfolding gmst_defs spec_gmst_defs t EPOCH_JDATE_def EPOCH_CTIME_def
    by (simp add: field_simps)
  ultimately show ?thesis by simp
qed

theorem gmst_greenwich_polynomial_witness:
  "(0::int) \<le> tv_sec \<lparr>tv_sec = 946728000, tv_nsec = 0\<rparr>
   \<and> (0::int) \<le> tv_nsec \<lparr>tv_sec = 946728000, tv_nsec = 0\<rparr>
   \<and> D0_of (now_of \<lparr>tv_sec = 946728000, tv_nsec = 0\<rparr>) = - (1 / 2)
   \<and> H_of (now_of \<lparr>tv_sec = 946728000, tv_nsec = 0\<rparr>) = 12
   \<and> T_of (now_of \<lparr>tv_sec = 946728000, tv_nsec = 0\<rparr>) = 0
   \<and> gmst_greenwich (now_of \<lparr>tv_sec = 946728000, tv_nsec = 0\<rparr>)
        = gmst_polynomial (- (1 / 2)) 12 0"
  using gmst_greenwich_polynomial [of "\<lparr>tv_sec = 946728000, tv_nsec = 0\<rparr>"]
  by (simp add: spec_gmst_defs now_of_def SECOND_IN_NANOS_def)

subsection \<open>The range of the local sidereal hour value\<close>

text \<open>
  The loop of line 233 brings a value above 24 down to at most 24, a positive value stays
  positive, and a value of at most 24 is returned as it is: the value 24 and every
  negative value included.
\<close>

lemma gmst_wrap_le_24: "gmst_wrap gmst \<le> 24"
  by (induction gmst rule: gmst_wrap.induct) (subst gmst_wrap.simps, simp)

lemma gmst_wrap_unchanged: "gmst \<le> 24 \<Longrightarrow> gmst_wrap gmst = gmst"
  by (subst gmst_wrap.simps) simp

lemma gmst_wrap_positive: "0 < gmst \<Longrightarrow> 0 < gmst_wrap gmst"
  by (induction gmst rule: gmst_wrap.induct) (subst gmst_wrap.simps, simp)

text \<open>
  C1 asks for a local sidereal hour value in the interval from 0 (included) to 24
  (excluded). The code gives about -713.3 hours, shown as hour -713, for longitude 0 and
  the clock reading 0 (1970-01-01T00:00 UTC), and about -17.3 hours for longitude -360 at
  2000-01-01T00:00 UTC: nothing adds 24 to a negative value.
\<close>

theorem update_display_gmst_negative:
  "update_display_gmst \<lparr>colon = 1, colon_blink = 0, tenth_enable = 1, longitude = 0\<rparr>
      \<lparr>tv_sec = 0, tv_nsec = 0\<rparr> = - (7133180241740691 / 10000000000000)
   \<and> h_of (- (7133180241740691 / 10000000000000)) = - 713
   \<and> update_display_gmst \<lparr>colon = 1, colon_blink = 0, tenth_enable = 1, longitude = - 360\<rparr>
      \<lparr>tv_sec = 946684800, tv_nsec = 0\<rparr> = - (1850147343057384556517 / 106726050000000000000)
   \<and> h_of (- (1850147343057384556517 / 106726050000000000000)) = - 17"
  by (simp add: update_display_gmst_def gmst_defs now_of_def trunc_int_def sidereal_const_defs
      gmst_wrap_unchanged h_of_def)

subsection \<open>Failures of the clock and of the SPI device\<close>

text \<open>
  C2 asks that every failure of \<open>clock_gettime\<close> and of the SPI ioctl ends the process
  at once. In SPI_Clock.c it does not: in an iteration in which \<open>clock_gettime\<close> fails
  and the ioctl of the first \<open>write_reg\<close> (the decode mode byte) fails, the loop body goes
  on, takes the time from the uninitialised \<open>now\<close>, sends the eight other writes of the
  frame and returns the state for the next iteration.
\<close>

theorem clock_continues_after_failures:
  "clock_main_loop_body \<lparr>ampm = 1, clock_colon = 1, tenth = 1\<rparr>
      \<lparr>gettime = None, stack_now = \<lparr>tv_sec = 0, tv_nsec = 300000000\<rparr>,
       localtime_r = (\<lambda>t. \<lparr>tm_hour = 0, tm_min = 5, tm_sec = 9\<rparr>),
       ioctl_ok = (\<lambda>k. k \<noteq> 0)\<rparr>
      \<lparr>sent = [], calls = 0, last_tenth = 12\<rparr>
   = \<lparr>sent = [(0x60, 1), (0x61, 2), (0x62, 0), (0x63, 5), (0x64, 0), (0x65, 0x89),
               (0x66, 3), (0x67, 0x76)],
      calls = 9, last_tenth = 3\<rparr>"
  by (simp add: clock_main_loop_body_def clock_frame_def clock_hour_def clock_decode_mask_def
      clock_misc_digit_def clock_write_reg_def max6951_defs Let_def signed_divide_int_def
      signed_modulo_int_def)

text \<open>
  SPI_Sidereal.c does what C2 says: \<open>update_display\<close> ends in \<open>exit(1)\<close> as soon as
  one of its two clock readings, one of its nine SPI writes or \<open>timer_settime\<close> fails.
\<close>

lemma sidereal_write_regs_exit:
  assumes "k < length ws" and "\<not> ok (calls st + k)"
  shows "sidereal_write_regs ok ws st = Inl 1"
  using assms
proof (induction ws arbitrary: st k)
  case Nil
  then show ?case by simp
next
  case (Cons w ws)
  obtain reg data where w: "w = (reg, data)" by (cases w)
  show ?case
  proof (cases "ok (calls st)")
    case False
    then show ?thesis by (simp add: w sidereal_write_reg_def)
  next
    case True
    with Cons.prems obtain k' where k': "k = Suc k'"
      by (cases k) auto
    let ?st = "st\<lparr>sent := sent st @ [(reg, data)], calls := Suc (calls st)\<rparr>"
    have "sidereal_write_regs ok ws ?st = Inl 1"
      using Cons.prems k' by (intro Cons.IH [of k']) simp_all
    then show ?thesis using True by (simp add: w sidereal_write_reg_def)
  qed
qed

lemma sidereal_write_regs_status:
  "sidereal_write_regs ok ws st = Inl status \<Longrightarrow> status = 1"
proof (induction ws arbitrary: st)
  case Nil
  then show ?case by simp
next
  case (Cons w ws)
  obtain reg data where w: "w = (reg, data)" by (cases w)
  from Cons show ?case
    by (auto simp add: w sidereal_write_reg_def split: if_splits)
qed

lemma update_display_exits:
  assumes "reading env = None \<or> (\<exists>k<9. \<not> spi_ok env (calls st + k))
            \<or> reading2 env = None \<or> \<not> settime_ok env"
  shows "update_display cfg env st = Inl 1"
proof (cases "reading env")
  case None
  then show ?thesis by (simp add: update_display_def)
next
  case (Some now_spec)
  let ?ws = "sidereal_frame cfg (update_display_gmst cfg now_spec)"
  have len: "length ?ws = 9" by (simp add: sidereal_frame_def Let_def)
  show ?thesis
  proof (cases "\<exists>k<9. \<not> spi_ok env (calls st + k)")
    case True
    then obtain k where "k < length ?ws" and "\<not> spi_ok env (calls st + k)"
      using len by auto
    then have "sidereal_write_regs (spi_ok env) ?ws st = Inl 1"
      by (rule sidereal_write_regs_exit)
    then show ?thesis by (simp add: update_display_def Some)
  next
    case False
    with assms Some have "reading2 env = None \<or> \<not> settime_ok env" by simp
    then have "schedule_timer (reading2 env) (settime_ok env) = Inl 1"
      by (auto simp add: schedule_timer_def split: option.splits)
    then show ?thesis
      using sidereal_write_regs_status
      by (auto simp add: update_display_def Some split: sum.splits)
  qed
qed

subsection \<open>The clear bits of the decode mode byte\<close>

text \<open>
  Which bits of the decode mode byte are clear, for every digit position.
\<close>

lemma clock_decode_mask_bit:
  assumes "n < 8"
  shows "(\<not> bit (clock_decode_mask cfg h) n)
          = (n = 7 \<or> n = 6 \<and> tenth cfg = 0 \<or> n = 0 \<and> ampm cfg \<noteq> 0 \<and> h < 10)"
proof -
  from assms have "n \<in> {0, 1, 2, 3, 4, 5, 6, 7}" by auto
  then show ?thesis
    by (elim insertE emptyE) (simp_all add: clock_decode_mask_def Let_def BV_def bit_simps)
qed

lemma sidereal_decode_mask_bit:
  assumes "n < 8"
  shows "(\<not> bit (sidereal_decode_mask cfg) n) = (n = 7 \<or> n = 6 \<and> tenth_enable cfg = 0)"
proof -
  from assms have "n \<in> {0, 1, 2, 3, 4, 5, 6, 7}" by auto
  then show ?thesis
    by (elim insertE emptyE)
      (simp_all add: sidereal_decode_mask_def Let_def BV_def DIGIT_MISC_def
        DIGIT_100_MSEC_def bit_simps)
qed

end
